theory Spec2Isabelle
  imports Main "HOL-Library.Sublist"
begin

section \<open>Strings and the platform's string operations\<close>

text \<open>
  A JavaScript string is modelled as the list of its characters. The Japanese literals of the
  source are written as the bytes of their UTF-8 encoding; the code only compares, concatenates
  and searches strings, with ASCII patterns, and these operations agree on both encodings.
\<close>

definition startsWith :: "string \<Rightarrow> string \<Rightarrow> bool" where
  "startsWith text p = prefix p text"

definition endsWith :: "string \<Rightarrow> string \<Rightarrow> bool" where
  "endsWith text q = suffix q text"

text \<open>
  \<open>text.replace(/^p/, '')\<close> and \<open>text.replace(/q$/, '')\<close> for literal \<open>p\<close> and \<open>q\<close>: the anchored
  match is removed when it is there, and the text is unchanged otherwise.
\<close>

definition removeLeading :: "string \<Rightarrow> string \<Rightarrow> string" where
  "removeLeading p text = (if prefix p text then drop (length p) text else text)"

definition removeTrailing :: "string \<Rightarrow> string \<Rightarrow> string" where
  "removeTrailing q text = (if suffix q text then take (length text - length q) text else text)"

text \<open>
  \<open>String.prototype.replace(searchValue, replaceValue)\<close> with two strings: the first occurrence
  of \<open>searchValue\<close> is found as \<open>indexOf\<close> finds it; the text before and after it is kept, and the
  occurrence is replaced by the expansion of \<open>replaceValue\<close>, in which \<open>$$\<close> stands for a dollar
  sign, \<open>$&\<close> for the matched text, \<open>$`\<close> for the text before the match and \<open>$'\<close> for the text
  after it. A string pattern has no capture groups, so every other \<open>$\<close> is literal.
\<close>

fun getSubstitution :: "string \<Rightarrow> string \<Rightarrow> string \<Rightarrow> string \<Rightarrow> string" where
  "getSubstitution matched preceding following [] = []"
| "getSubstitution matched preceding following [c] = [c]"
| "getSubstitution matched preceding following (c # d # r) =
     (if c = CHR ''$'' \<and> d = CHR ''$'' then CHR ''$'' # getSubstitution matched preceding following r
      else if c = CHR ''$'' \<and> d = CHR ''&'' then matched @ getSubstitution matched preceding following r
      else if c = CHR ''$'' \<and> d = CHR 0x60 then preceding @ getSubstitution matched preceding following r
      else if c = CHR ''$'' \<and> d = CHR 0x27 then following @ getSubstitution matched preceding following r
      else c # getSubstitution matched preceding following (d # r))"

fun indexOf :: "string \<Rightarrow> string \<Rightarrow> nat option" where
  "indexOf [] searchValue = (if searchValue = [] then Some 0 else None)"
| "indexOf (c # cs) searchValue =
     (if prefix searchValue (c # cs) then Some 0 else map_option Suc (indexOf cs searchValue))"

definition replace :: "string \<Rightarrow> string \<Rightarrow> string \<Rightarrow> string" where
  "replace text searchValue replaceValue =
     (case indexOf text searchValue of
        None \<Rightarrow> text
      | Some pos \<Rightarrow>
          (let preceding = take pos text;
               following = drop (pos + length searchValue) text
           in preceding @ getSubstitution searchValue preceding following replaceValue @ following))"

text \<open>\<open>xs.join(sep)\<close> on an array of strings.\<close>

fun join :: "string \<Rightarrow> string list \<Rightarrow> string" where
  "join sep [] = []"
| "join sep [x] = x"
| "join sep (x # y # ys) = x @ sep @ join sep (y # ys)"

text \<open>
  \<open>[...new Set(xs)]\<close>: the elements are added in order, an element already in the set is not
  added again, and the set is read back in insertion order.
\<close>

definition newSet :: "'a list \<Rightarrow> 'a list" where
  "newSet xs = foldl (\<lambda>seen x. if x \<in> set seen then seen else seen @ [x]) [] xs"

text \<open>The decimal digits of a number inside a template literal.\<close>

fun showNat :: "nat \<Rightarrow> string" where
  "showNat n =
     (if n < 10 then [char_of (48 + n)]
      else showNat (n div 10) @ [char_of (48 + n mod 10)])"

declare showNat.simps [simp del]

section \<open>Data model\<close>

text \<open>The interface \<open>LibraryInfo\<close> of the service.\<close>

record LibraryInfo =
  libid :: string
  formal :: string
  short :: string
  systemid :: string
  systemname :: string
  libkey :: string
  category :: string
  pref :: string
  city :: string
  address :: string
  url_pc :: string

text \<open>
  The interface \<open>BookResponse\<close>. An object with string keys is the list of its properties in
  the order \<open>for ... in\<close> enumerates them, each key once. A field that the code tests before
  use (\<open>books\<close>, \<open>libkey\<close>, \<open>reserveurl\<close>, the status of a library key) is an option, \<open>None\<close>
  when the payload has no value there.
\<close>

record SystemData =
  status :: string
  libkey :: "(string \<times> string option) list option"
  reserveurl :: "string option"

record BookResponse =
  session :: string
  continue :: nat
  books :: "(string \<times> (string \<times> SystemData) list) list option"

text \<open>
  What \<open>JSON.parse\<close> returns for a response of the directory endpoint: a flat array of library
  records, or an object keyed by system whose values map library keys to library records.
\<close>

datatype directory_payload =
    LibraryArray "LibraryInfo list"
  | SystemObject "(string \<times> (string \<times> LibraryInfo) list) list"

text \<open>The objects \<open>searchBookInCity\<close> returns: a report for one ISBN, or an error object.\<close>

record LibraryResult =
  name :: string
  status :: string
  reserveUrl :: "string option"

datatype search_result =
    Result string "LibraryResult list"   \<comment> \<open>\<open>{ isbn, libraries }\<close>\<close>
  | ErrorResponse string                 \<comment> \<open>\<open>{ error }\<close>\<close>

text \<open>Thrown values: \<open>new Error(m)\<close>, the \<open>SyntaxError\<close> of \<open>JSON.parse\<close>, a rejected \<open>fetch\<close>.\<close>

datatype error = Error string | SyntaxError string | FetchError string

fun message :: "error \<Rightarrow> string" where
  "message (Error m) = m"
| "message (SyntaxError m) = m"
| "message (FetchError m) = m"

section \<open>The network and the platform\<close>

text \<open>
  A request is the endpoint and the parameters given to \<open>URLSearchParams\<close>. The network answers
  the requests in the order they are issued: the request number \<open>i\<close> of a run gets \<open>net i\<close>, a
  rejection of \<open>fetch\<close> or a response with its HTTP status and body. The state of a run is the
  list of requests issued so far and the time spent in \<open>setTimeout\<close>, in milliseconds.
  \<open>JSON.parse\<close> is the platform's; it is a parameter, read at the type the call site gives its
  result.
\<close>

record request =
  url :: string
  params :: "(string \<times> string) list"

datatype fetch_outcome = Rejected string | Response nat string

record io =
  requests :: "request list"
  waited :: nat

record platform =
  net :: "nat \<Rightarrow> fetch_outcome"
  JSON_parse_directory :: "string \<Rightarrow> error + directory_payload"
  JSON_parse_check :: "string \<Rightarrow> error + BookResponse"

definition fetch :: "platform \<Rightarrow> request \<Rightarrow> io \<Rightarrow> (error + nat \<times> string) \<times> io" where
  "fetch P req s =
     (case net P (length (requests s)) of
        Rejected m \<Rightarrow> (Inl (FetchError m), s\<lparr>requests := requests s @ [req]\<rparr>)
      | Response code body \<Rightarrow> (Inr (code, body), s\<lparr>requests := requests s @ [req]\<rparr>))"

definition ok :: "nat \<Rightarrow> bool" where
  "ok code = (200 \<le> code \<and> code \<le> 299)"

section \<open>The service\<close>

definition apiBaseUrl :: string where
  "apiBaseUrl = ''https://api.calil.jp/library''"

definition apiCheckUrl :: string where
  "apiCheckUrl = ''https://api.calil.jp/check''"

subsection \<open>parseJsonpResponse\<close>

definition parseJsonpResponse :: "(string \<Rightarrow> error + 'a) \<Rightarrow> string \<Rightarrow> error + 'a" where
  "parseJsonpResponse JSON_parse text =
     (if startsWith text ''callback('' \<and> endsWith text '');'' then
        (let jsonText = removeTrailing '');'' (removeLeading ''callback('' text)
         in JSON_parse jsonText)
      else JSON_parse text)"

subsection \<open>getLibraries\<close>

text \<open>
  The class holds the API key. The \<open>catch\<close> clauses of \<open>getLibraries\<close>, \<open>checkBooks\<close> and
  \<open>pollResults\<close> log the error and throw it again, so an error of the body is the error of the
  call. \<open>city\<close> is an optional parameter, used when it is given and not empty.
\<close>

record CalilApiService =
  apiKey :: string

definition getLibraries ::
  "CalilApiService \<Rightarrow> platform \<Rightarrow> string \<Rightarrow> string option \<Rightarrow> io
     \<Rightarrow> (error + LibraryInfo list) \<times> io" where
  "getLibraries svc P pref' city' s =
     (let params' = [(''appkey'', apiKey svc), (''format'', ''json''), (''pref'', pref')]
                   @ (case city' of None \<Rightarrow> [] | Some c \<Rightarrow> if c = [] then [] else [(''city'', c)])
      in case fetch P \<lparr>url = apiBaseUrl, params = params'\<rparr> s of
           (Inl e, s1) \<Rightarrow> (Inl e, s1)
         | (Inr (code, text), s1) \<Rightarrow>
             if \<not> ok code then (Inl (Error (''API call failed with status: '' @ showNat code)), s1)
             else (case parseJsonpResponse (JSON_parse_directory P) text of
                     Inl e \<Rightarrow> (Inl e, s1)
                   | Inr libraries \<Rightarrow>
                       (Inr (case libraries of LibraryArray ls \<Rightarrow> ls | SystemObject _ \<Rightarrow> []), s1)))"

subsection \<open>checkBooks and pollResults\<close>

text \<open>
  The loop of \<open>pollResults\<close>, from round \<open>i\<close>: wait a second, ask for the session, return the
  response when it says \<open>continue = 0\<close>, go to the next round otherwise; after \<open>maxRetries\<close>
  rounds, throw.
\<close>

function pollLoop ::
  "CalilApiService \<Rightarrow> platform \<Rightarrow> string \<Rightarrow> nat \<Rightarrow> nat \<Rightarrow> io \<Rightarrow> (error + BookResponse) \<times> io" where
  "pollLoop svc P session' maxRetries i s =
     (if i < maxRetries then
        (case fetch P \<lparr>url = apiCheckUrl,
                        params = [(''appkey'', apiKey svc), (''session'', session'), (''format'', ''json'')]\<rparr>
                      (s\<lparr>waited := waited s + 1000\<rparr>) of
           (Inl e, s2) \<Rightarrow> (Inl e, s2)
         | (Inr (code, text), s2) \<Rightarrow>
             if \<not> ok code then (Inl (Error (''API call failed with status: '' @ showNat code)), s2)
             else (case parseJsonpResponse (JSON_parse_check P) text of
                     Inl e \<Rightarrow> (Inl e, s2)
                   | Inr result \<Rightarrow>
                       if continue result = 0 then (Inr result, s2)
                       else pollLoop svc P session' maxRetries (i + 1) s2))
      else (Inl (Error (''Polling timed out after '' @ showNat maxRetries @ '' attempts'')), s))"
  by pat_completeness auto

termination
  by (relation "measure (\<lambda>(svc, P, session', maxRetries, i, s). maxRetries - i)") auto

declare pollLoop.simps [simp del]

definition pollResults ::
  "CalilApiService \<Rightarrow> platform \<Rightarrow> string \<Rightarrow> nat \<Rightarrow> io \<Rightarrow> (error + BookResponse) \<times> io" where
  "pollResults svc P session' maxRetries s = pollLoop svc P session' maxRetries 0 s"

text \<open>\<open>checkBooks\<close> calls \<open>pollResults(result.session)\<close>, with the default \<open>maxRetries = 5\<close>.\<close>

definition checkBooks ::
  "CalilApiService \<Rightarrow> platform \<Rightarrow> string \<Rightarrow> string \<Rightarrow> io \<Rightarrow> (error + BookResponse) \<times> io" where
  "checkBooks svc P isbn systemids s =
     (case fetch P \<lparr>url = apiCheckUrl,
                     params = [(''appkey'', apiKey svc), (''isbn'', isbn), (''systemid'', systemids),
                               (''format'', ''json'')]\<rparr> s of
        (Inl e, s1) \<Rightarrow> (Inl e, s1)
      | (Inr (code, text), s1) \<Rightarrow>
          if \<not> ok code then (Inl (Error (''API call failed with status: '' @ showNat code)), s1)
          else (case parseJsonpResponse (JSON_parse_check P) text of
                  Inl e \<Rightarrow> (Inl e, s1)
                | Inr result \<Rightarrow>
                    if continue result = 1 then pollResults svc P (session result) 5 s1
                    else (Inr result, s1)))"

subsection \<open>formatBookResult\<close>

definition unknownStatus :: string where
  \<comment> \<open>the literal for "unknown", U+4E0D U+660E\<close>
  "unknownStatus = [CHR 0xE4, CHR 0xB8, CHR 0x8D, CHR 0xE6, CHR 0x98, CHR 0x8E]"

definition noHoldings :: string where
  \<comment> \<open>the literal for "no holdings", U+8535 U+66F8 U+306A U+3057\<close>
  "noHoldings = [CHR 0xE8, CHR 0x94, CHR 0xB5, CHR 0xE6, CHR 0x9B, CHR 0xB8,
                 CHR 0xE3, CHR 0x81, CHR 0xAA, CHR 0xE3, CHR 0x81, CHR 0x97]"

text \<open>
  \<open>systemData.libkey[libKey] || unknown\<close>: the value of the key when it is truthy, that is a
  string that is not empty, and the fallback otherwise.
\<close>

definition lendingStatusOf :: "string option \<Rightarrow> string" where
  "lendingStatusOf v = (case v of None \<Rightarrow> unknownStatus | Some st \<Rightarrow> if st = [] then unknownStatus else st)"

text \<open>The reservation link of one library: \<open>null\<close> unless the system has a template that is
  not empty and the status is not "no holdings".\<close>

definition reserveUrlOf :: "SystemData \<Rightarrow> string \<Rightarrow> string \<Rightarrow> string \<Rightarrow> string \<Rightarrow> string option" where
  "reserveUrlOf systemData lendingStatus isbn systemId libKey =
     (case reserveurl systemData of
        None \<Rightarrow> None
      | Some template \<Rightarrow>
          if template \<noteq> [] \<and> lendingStatus \<noteq> noHoldings then
            Some (replace (replace (replace template ''{{isbn}}'' isbn) ''{{systemid}}'' systemId)
                          ''{{libkey}}'' libKey)
          else None)"

text \<open>The inner loop, over the library keys of one system; \<open>acc\<close> is \<open>result.libraries\<close>.\<close>

fun libkeyLoop ::
  "LibraryInfo list \<Rightarrow> string \<Rightarrow> string \<Rightarrow> SystemData \<Rightarrow> (string \<times> string option) list
     \<Rightarrow> LibraryResult list \<Rightarrow> LibraryResult list" where
  "libkeyLoop systemLibraries isbn systemId systemData [] acc = acc"
| "libkeyLoop systemLibraries isbn systemId systemData ((libKey, v) # rest) acc =
     (case find (\<lambda>lib. LibraryInfo.libkey lib = libKey) systemLibraries of
        None \<Rightarrow> libkeyLoop systemLibraries isbn systemId systemData rest acc
      | Some libraryInfo \<Rightarrow>
          (let lendingStatus = lendingStatusOf v;
               reserveUrl = reserveUrlOf systemData lendingStatus isbn systemId libKey
           in libkeyLoop systemLibraries isbn systemId systemData rest
                (acc @ [\<lparr>name = formal libraryInfo, LibraryResult.status = lendingStatus,
                          reserveUrl = reserveUrl\<rparr>])))"

text \<open>The outer loop, over the systems reported for the ISBN.\<close>

fun systemLoop ::
  "LibraryInfo list \<Rightarrow> string \<Rightarrow> (string \<times> SystemData) list \<Rightarrow> LibraryResult list
     \<Rightarrow> LibraryResult list" where
  "systemLoop libraries isbn [] acc = acc"
| "systemLoop libraries isbn ((systemId, systemData) # rest) acc =
     (if SystemData.status systemData \<noteq> ''OK'' \<and> SystemData.status systemData \<noteq> ''Cache'' then
        systemLoop libraries isbn rest acc
      else
        (let systemLibraries = filter (\<lambda>lib. systemid lib = systemId) libraries
         in case SystemData.libkey systemData of
              None \<Rightarrow> systemLoop libraries isbn rest acc
            | Some keys \<Rightarrow>
                systemLoop libraries isbn rest
                  (libkeyLoop systemLibraries isbn systemId systemData keys acc)))"

text \<open>
  On values of the declared types no statement of \<open>formatBookResult\<close> throws, so its \<open>catch\<close>
  clause, which would return an error object, has no branch here.
\<close>

definition formatBookResult :: "BookResponse \<Rightarrow> LibraryInfo list \<Rightarrow> string \<Rightarrow> search_result" where
  "formatBookResult bookResponse libraries isbn =
     (case books bookResponse of
        None \<Rightarrow> Result isbn []
      | Some bs \<Rightarrow>
          (case map_of bs isbn of
             None \<Rightarrow> Result isbn []
           | Some bookData \<Rightarrow> Result isbn (systemLoop libraries isbn bookData [])))"

subsection \<open>searchBookInCity\<close>

text \<open>
  The whole body is inside \<open>try\<close>; the \<open>catch\<close> clause returns an error object made of the
  message of whatever was thrown.
\<close>

definition searchBookInCity ::
  "CalilApiService \<Rightarrow> platform \<Rightarrow> string \<Rightarrow> string \<Rightarrow> string \<Rightarrow> io
     \<Rightarrow> (error + search_result) \<times> io" where
  "searchBookInCity svc P isbn pref' city' s =
     (case getLibraries svc P pref' (Some city') s of
        (Inl e, s1) \<Rightarrow> (Inr (ErrorResponse (message e)), s1)
      | (Inr libraries, s1) \<Rightarrow>
          if length libraries = 0 then
            (Inr (ErrorResponse (''No libraries found in '' @ pref' @ '', '' @ city')), s1)
          else
            (let systemIds = join '','' (newSet (map systemid libraries))
             in case checkBooks svc P isbn systemIds s1 of
                  (Inl e, s2) \<Rightarrow> (Inr (ErrorResponse (message e)), s2)
                | (Inr result, s2) \<Rightarrow> (Inr (formatBookResult result libraries isbn), s2)))"

section \<open>Auxiliary notions and example data\<close>

text \<open>
  A JSON document begins, after white space, with the first character of a value: a brace, a
  bracket, a quote, a minus sign, a digit, or the first letter of \<open>true\<close>, \<open>false\<close> or \<open>null\<close>.
  Every text that \<open>JSON.parse\<close> accepts begins so.
\<close>

definition beginsJsonValue :: "string \<Rightarrow> bool" where
  \<open>beginsJsonValue text =
     (case dropWhile (\<lambda>c. c \<in> set [CHR '' '', CHR 0x09, CHR 0x0A, CHR 0x0D]) text of
        [] \<Rightarrow> False
      | c # _ \<Rightarrow> c \<in> set ''{["-0123456789tfn'')\<close>

text \<open>The two states of a system whose data the merger uses.\<close>

definition usable :: "SystemData \<Rightarrow> bool" where
  "usable systemData =
     (SystemData.status systemData = ''OK'' \<or> SystemData.status systemData = ''Cache'')"

text \<open>A library of the directory, and the texts of directory responses that hold it.\<close>

definition exampleLibrary :: LibraryInfo where
  "exampleLibrary =
     \<lparr>libid = ''104926'', formal = ''Central Library'', short = ''Central'',
      systemid = ''Chiba_Chiba'', systemname = ''Chiba City'', LibraryInfo.libkey = ''A'',
      category = ''MEDIUM'', pref = ''Chiba'', city = ''Chiba'', address = ''Chiba Chuo'',
      url_pc = ''https://www.library.city.chiba.jp/''\<rparr>"

definition exampleLibraryText :: string where
  \<open>exampleLibraryText =
     ''{"libid":"104926","formal":"Central Library","short":"Central","systemid":"Chiba_Chiba",''
     @ ''"systemname":"Chiba City","libkey":"A","category":"MEDIUM","pref":"Chiba","city":"Chiba",''
     @ ''"address":"Chiba Chuo","url_pc":"https://www.library.city.chiba.jp/"}''\<close>

text \<open>\<open>JSON.parse\<close> on the directory texts of the examples; any other text is rejected.\<close>

definition exampleParseDirectory :: "string \<Rightarrow> error + directory_payload" where
  \<open>exampleParseDirectory text =
     (if text = ''[]'' then Inr (LibraryArray [])
      else if text = ''['' @ exampleLibraryText @ '']'' then Inr (LibraryArray [exampleLibrary])
      else if text = ''{"Chiba_Chiba":{"A":'' @ exampleLibraryText @ ''}}'' then
        Inr (SystemObject [(''Chiba_Chiba'', [(''A'', exampleLibrary)])])
      else Inl (SyntaxError ''Unexpected token''))\<close>

text \<open>A system that is still running, with a status for the library key \<open>A\<close>.\<close>

definition exampleRunning :: SystemData where
  "exampleRunning =
     \<lparr>SystemData.status = ''Running'', libkey = Some [(''A'', Some ''x'')], reserveurl = None\<rparr>"

text \<open>A service, a platform that parses the texts of the examples, and the state before a run.\<close>

definition exampleService :: CalilApiService where
  "exampleService = \<lparr>apiKey = ''key''\<rparr>"

definition exampleParseCheck :: "string \<Rightarrow> error + BookResponse" where
  \<open>exampleParseCheck text =
     (if text = ''{"session":"s1","continue":1,"books":{}}'' then
        Inr \<lparr>session = ''s1'', continue = 1, books = Some []\<rparr>
      else if text = ''{"session":"s1","continue":0,"books":{}}'' then
        Inr \<lparr>session = ''s1'', continue = 0, books = Some []\<rparr>
      else Inl (SyntaxError ''Unexpected token''))\<close>

definition examplePlatform :: "(nat \<Rightarrow> fetch_outcome) \<Rightarrow> platform" where
  "examplePlatform answers =
     \<lparr>net = answers, JSON_parse_directory = exampleParseDirectory,
      JSON_parse_check = exampleParseCheck\<rparr>"

definition start :: io where
  "start = \<lparr>requests = [], waited = 0\<rparr>"

text \<open>
  Networks: a directory with no library, a directory that answers with an object keyed by
  system, one that answers with a flat array, a directory that fails, and a check endpoint
  that fails after the directory has answered.
\<close>

definition emptyDirectory :: "nat \<Rightarrow> fetch_outcome" where
  "emptyDirectory i = Response 200 ''[]''"

definition objectDirectory :: "nat \<Rightarrow> fetch_outcome" where
  \<open>objectDirectory i = Response 200 (''{"Chiba_Chiba":{"A":'' @ exampleLibraryText @ ''}}'')\<close>

definition arrayDirectory :: "nat \<Rightarrow> fetch_outcome" where
  \<open>arrayDirectory i = Response 200 (''['' @ exampleLibraryText @ '']'')\<close>

definition directoryDown :: "nat \<Rightarrow> fetch_outcome" where
  "directoryDown i = Response 500 []"

definition checkDown :: "nat \<Rightarrow> fetch_outcome" where
  \<open>checkDown i = (if i = 0 then Response 200 (''['' @ exampleLibraryText @ '']'') else Response 503 [])\<close>

text \<open>The request \<open>getLibraries\<close> issues.\<close>

definition directoryRequest :: "CalilApiService \<Rightarrow> string \<Rightarrow> string option \<Rightarrow> request" where
  "directoryRequest svc pref' city' =
     \<lparr>url = apiBaseUrl,
      params = [(''appkey'', apiKey svc), (''format'', ''json''), (''pref'', pref')]
               @ (case city' of None \<Rightarrow> [] | Some c \<Rightarrow> if c = [] then [] else [(''city'', c)])\<rparr>"

text \<open>
  A lending status, "can be lent" (U+8CB8 U+51FA U+53EF); a second library of the same system;
  systems in state \<open>OK\<close>: one with a status for the key \<open>A\<close>, no status for the key \<open>B\<close> and a
  reservation template, one that lists the key \<open>B\<close> only; and the settled response that
  reports one system for an ISBN.
\<close>

definition statusAvailable :: string where
  "statusAvailable =
     [CHR 0xE8, CHR 0xB2, CHR 0xB8, CHR 0xE5, CHR 0x87, CHR 0xBA, CHR 0xE5, CHR 0x8F, CHR 0xAF]"

definition exampleOk :: SystemData where
  "exampleOk =
     \<lparr>SystemData.status = ''OK'', libkey = Some [(''A'', Some statusAvailable), (''B'', None)],
      reserveurl = Some ''https://reserve.example/{{systemid}}/{{libkey}}/{{isbn}}''\<rparr>"

definition exampleLibraryB :: LibraryInfo where
  "exampleLibraryB =
     exampleLibrary\<lparr>libid := ''104927'', formal := ''Branch Library'', short := ''Branch'',
                    LibraryInfo.libkey := ''B''\<rparr>"

definition exampleOnlyB :: SystemData where
  "exampleOnlyB =
     \<lparr>SystemData.status = ''OK'', libkey = Some [(''B'', Some statusAvailable)], reserveurl = None\<rparr>"

definition checked :: "string \<Rightarrow> SystemData \<Rightarrow> BookResponse" where
  "checked isbn systemData =
     \<lparr>session = ''s1'', continue = 0, books = Some [(isbn, [(''Chiba_Chiba'', systemData)])]\<rparr>"

text \<open>
  The lending statuses one system of the payload contributes to the report, in order: for a
  system in state \<open>OK\<close> or \<open>Cache\<close> with a map of library keys, the status of every listed key
  that is the key of a library of the directory in this system.
\<close>

definition systemStatuses :: "LibraryInfo list \<Rightarrow> string \<times> SystemData \<Rightarrow> string list" where
  "systemStatuses libraries = (\<lambda>(systemId, systemData).
     if SystemData.status systemData = ''OK'' \<or> SystemData.status systemData = ''Cache'' then
       (case SystemData.libkey systemData of
          None \<Rightarrow> []
        | Some keys \<Rightarrow>
            map (\<lambda>(libKey, v). lendingStatusOf v)
              (filter (\<lambda>(libKey, v). \<exists>lib \<in> set libraries.
                          systemid lib = systemId \<and> LibraryInfo.libkey lib = libKey) keys))
     else [])"

text \<open>
  The value of \<open>continue\<close> that the service reads in the answer to the request number \<open>k\<close>,
  when the answer has a success status and a body that parses; the requests of \<open>checkBooks\<close>
  and of a poll round; the error of a poll that ran out of rounds.
\<close>

definition observedContinue :: "platform \<Rightarrow> nat \<Rightarrow> nat option" where
  "observedContinue P k =
     (case net P k of
        Rejected m \<Rightarrow> None
      | Response code body \<Rightarrow>
          if ok code then
            (case parseJsonpResponse (JSON_parse_check P) body of
               Inl e \<Rightarrow> None
             | Inr result \<Rightarrow> Some (continue result))
          else None)"

definition checkRequest :: "CalilApiService \<Rightarrow> string \<Rightarrow> string \<Rightarrow> request" where
  "checkRequest svc isbn systemids =
     \<lparr>url = apiCheckUrl,
      params = [(''appkey'', apiKey svc), (''isbn'', isbn), (''systemid'', systemids),
                (''format'', ''json'')]\<rparr>"

definition pollRequest :: "CalilApiService \<Rightarrow> string \<Rightarrow> request" where
  "pollRequest svc session' =
     \<lparr>url = apiCheckUrl,
      params = [(''appkey'', apiKey svc), (''session'', session'), (''format'', ''json'')]\<rparr>"

definition timedOut :: "nat \<Rightarrow> error" where
  "timedOut maxRetries = Error (''Polling timed out after '' @ showNat maxRetries @ '' attempts'')"

text \<open>A check endpoint that always asks to continue, and one that settles at once.\<close>

definition neverSettles :: "nat \<Rightarrow> fetch_outcome" where
  \<open>neverSettles i = Response 200 ''{"session":"s1","continue":1,"books":{}}''\<close>

definition settledAtOnce :: "nat \<Rightarrow> fetch_outcome" where
  \<open>settledAtOnce i = Response 200 ''{"session":"s1","continue":0,"books":{}}''\<close>





text \<open>A system whose reservation template holds each placeholder, two of them twice.\<close>

definition exampleRepeated :: SystemData where
  "exampleRepeated =
     \<lparr>SystemData.status = ''OK'', libkey = Some [(''A'', Some statusAvailable)],
      reserveurl =
        Some ''https://reserve.example/{{systemid}}/{{libkey}}/{{isbn}}/{{isbn}}/{{libkey}}''\<rparr>"

section \<open>Properties of the decoder\<close>

lemma beginsJsonValue_not_callback: "beginsJsonValue text \<Longrightarrow> \<not> prefix ''callback('' text"
  by (auto simp: beginsJsonValue_def prefix_def)

lemma wrapper_prefix: "prefix ''callback('' (''callback('' @ body @ '');'')"
  by (simp add: prefix_def)

lemma wrapper_suffix: "suffix '');'' (''callback('' @ body @ '');'')"
  unfolding suffix_def by (rule exI [of _ "''callback('' @ body"]) simp

lemma unwrap_wrapped:
  "removeTrailing '');'' (removeLeading ''callback('' (''callback('' @ body @ '');'')) = body"
proof -
  have "removeLeading ''callback('' (''callback('' @ body @ '');'') = body @ '');''"
    unfolding removeLeading_def using wrapper_prefix [of body] by simp
  moreover have "removeTrailing '');'' (body @ '');'') = body"
    unfolding removeTrailing_def by (simp add: suffix_def)
  ultimately show ?thesis by simp
qed

lemma parse_wrapped:
  "parseJsonpResponse JSON_parse (''callback('' @ body @ '');'') = JSON_parse body"
  unfolding parseJsonpResponse_def startsWith_def endsWith_def Let_def
  using wrapper_prefix [of body] wrapper_suffix [of body] unwrap_wrapped [of body]
  by (simp del: append.simps)

lemma parse_bare:
  "\<not> (startsWith text ''callback('' \<and> endsWith text '');'') \<Longrightarrow>
     parseJsonpResponse JSON_parse text = JSON_parse text"
  unfolding parseJsonpResponse_def by auto

text \<open>
  C6. For a JSON document \<open>json\<close>, decoding \<open>callback(json);\<close> and decoding \<open>json\<close> give the same
  value, the one \<open>JSON.parse\<close> gives for \<open>json\<close>. The decoder removes one wrapper: whatever the
  body of \<open>callback(body);\<close> is, the body is parsed as it stands. A text that lacks the prefix
  \<open>callback(\<close> or the suffix \<open>);\<close> is parsed as it is. \<open>callback\<close> is the one wrapper token the
  decoder accepts.
\<close>

theorem parseJsonpResponse_roundtrip:
  "beginsJsonValue json \<Longrightarrow>
     (parseJsonpResponse JSON_parse (''callback('' @ json @ '');'') = parseJsonpResponse JSON_parse json
        \<and> parseJsonpResponse JSON_parse json = JSON_parse json)
     \<and> (\<forall>body. parseJsonpResponse JSON_parse (''callback('' @ body @ '');'') = JSON_parse body)
     \<and> (\<forall>text. \<not> (startsWith text ''callback('' \<and> endsWith text '');'')
            \<longrightarrow> parseJsonpResponse JSON_parse text = JSON_parse text)"
proof -
  assume "beginsJsonValue json"
  then have "\<not> startsWith json ''callback(''"
    unfolding startsWith_def by (rule beginsJsonValue_not_callback)
  then have bare: "parseJsonpResponse JSON_parse json = JSON_parse json"
    by (simp add: parse_bare)
  show ?thesis
    using bare parse_wrapped [of JSON_parse] parse_bare [of _ JSON_parse] by simp
qed

theorem parseJsonpResponse_roundtrip_witness:
  "beginsJsonValue ''[]''
   \<and> parseJsonpResponse exampleParseDirectory ''callback([]);'' = Inr (LibraryArray [])
   \<and> parseJsonpResponse exampleParseDirectory ''[]'' = Inr (LibraryArray [])
   \<and> \<not> (startsWith ''[]'' ''callback('' \<and> endsWith ''[]'' '');'')"
  using parseJsonpResponse_roundtrip [of "''[]''" exampleParseDirectory]
  by (simp add: beginsJsonValue_def exampleParseDirectory_def startsWith_def)

section \<open>Properties of the merger\<close>

lemma systemLoop_unusable:
  "\<not> usable systemData \<Longrightarrow>
     systemLoop libraries isbn ((systemId, systemData) # rest) acc = systemLoop libraries isbn rest acc"
  by (simp add: usable_def)

lemma systemLoop_usable:
  "usable systemData \<Longrightarrow>
     systemLoop libraries isbn ((systemId, systemData) # rest) acc =
       (case SystemData.libkey systemData of
          None \<Rightarrow> systemLoop libraries isbn rest acc
        | Some keys \<Rightarrow>
            systemLoop libraries isbn rest
              (libkeyLoop (filter (\<lambda>lib. systemid lib = systemId) libraries) isbn systemId
                 systemData keys acc))"
  by (auto simp: usable_def)

lemma systemLoop_filter:
  "systemLoop libraries isbn (filter (\<lambda>(systemId, systemData). usable systemData) bookData) acc
   = systemLoop libraries isbn bookData acc"
proof (induction bookData arbitrary: acc)
  case Nil
  show ?case by simp
next
  case (Cons entry bookData)
  obtain systemId systemData where entry: "entry = (systemId, systemData)"
    by (cases entry)
  show ?case
  proof (cases "usable systemData")
    case True
    then show ?thesis
      using Cons.IH by (simp add: entry systemLoop_usable del: systemLoop.simps split: option.splits)
  next
    case False
    then show ?thesis
      using Cons.IH by (simp add: entry systemLoop_unusable del: systemLoop.simps)
  qed
qed

text \<open>
  C7. A system whose status is neither \<open>OK\<close> nor \<open>Cache\<close> adds no entry to the report: the loop
  passes over it with the list of entries unchanged, whatever library keys it holds, and the
  report of a payload is the report of the payload with every such system left out.
\<close>

theorem formatBookResult_unusable_systems:
  "(SystemData.status systemData \<noteq> ''OK'' \<and> SystemData.status systemData \<noteq> ''Cache''
      \<longrightarrow> systemLoop libraries isbn ((systemId, systemData) # rest) acc
          = systemLoop libraries isbn rest acc)
   \<and> (books bookResponse = Some bs \<and> map_of bs isbn = Some bookData
      \<longrightarrow> formatBookResult bookResponse libraries isbn
          = Result isbn (systemLoop libraries isbn
              (filter (\<lambda>(systemId, systemData). SystemData.status systemData \<in> {''OK'', ''Cache''})
                 bookData) []))"
  using systemLoop_filter [of libraries isbn bookData "[]"]
  by (simp add: formatBookResult_def usable_def)

theorem formatBookResult_unusable_systems_witness:
  "SystemData.status exampleRunning \<noteq> ''OK'' \<and> SystemData.status exampleRunning \<noteq> ''Cache''
   \<and> systemLoop [exampleLibrary] ''4299062647'' [(''Chiba_Chiba'', exampleRunning)] [] = []
   \<and> books \<lparr>session = ''s1'', continue = 0,
              books = Some [(''4299062647'', [(''Chiba_Chiba'', exampleRunning)])]\<rparr>
       = Some [(''4299062647'', [(''Chiba_Chiba'', exampleRunning)])]
   \<and> map_of [(''4299062647'', [(''Chiba_Chiba'', exampleRunning)])] ''4299062647''
       = Some [(''Chiba_Chiba'', exampleRunning)]
   \<and> formatBookResult
        \<lparr>session = ''s1'', continue = 0,
          books = Some [(''4299062647'', [(''Chiba_Chiba'', exampleRunning)])]\<rparr>
        [exampleLibrary] ''4299062647''
       = Result ''4299062647'' []"
  using formatBookResult_unusable_systems
    [of exampleRunning "[exampleLibrary]" "''4299062647''" "''Chiba_Chiba''" "[]" "[]"
        "\<lparr>session = ''s1'', continue = 0,
           books = Some [(''4299062647'', [(''Chiba_Chiba'', exampleRunning)])]\<rparr>"
        "[(''4299062647'', [(''Chiba_Chiba'', exampleRunning)])]"
        "[(''Chiba_Chiba'', exampleRunning)]"]
  by (simp add: exampleRunning_def)

text \<open>
  C9. When the payload has no \<open>books\<close>, or \<open>books\<close> has no entry for the requested ISBN, the
  merger returns the report of that ISBN with an empty list of entries; it is a report, not an
  error object.
\<close>

theorem formatBookResult_no_isbn:
  "books bookResponse = None \<or> (\<exists>bs. books bookResponse = Some bs \<and> map_of bs isbn = None)
     \<Longrightarrow> formatBookResult bookResponse libraries isbn = Result isbn []"
  by (auto simp: formatBookResult_def)

theorem formatBookResult_no_isbn_witness:
  "(\<exists>bs. books \<lparr>session = ''s1'', continue = 0, books = Some []\<rparr> = Some bs
           \<and> map_of bs ''4299062647'' = None)
   \<and> formatBookResult \<lparr>session = ''s1'', continue = 0, books = Some []\<rparr> [exampleLibrary] ''4299062647''
       = Result ''4299062647'' []"
  using formatBookResult_no_isbn
    [of "\<lparr>session = ''s1'', continue = 0, books = Some []\<rparr>" "''4299062647''" "[exampleLibrary]"]
  by simp

section \<open>Properties of the directory client and of the facade\<close>

lemma showNat_500: "showNat 500 = ''500''"
  by code_simp

lemma getLibraries_io:
  "snd (getLibraries svc P pref' city' s) =
     s\<lparr>requests := requests s @ [directoryRequest svc pref' city']\<rparr>"
  by (simp add: getLibraries_def fetch_def Let_def directoryRequest_def
           split: fetch_outcome.splits sum.splits)

text \<open>
  C3, as the code has it. \<open>getLibraries\<close> returns the records of a payload that is a flat array,
  as they are and in their order; for a payload that is an object keyed by system it returns
  the empty list, whatever libraries the object holds.
\<close>

theorem getLibraries_shapes:
  "net P (length (requests s)) = Response code text \<Longrightarrow> ok code \<Longrightarrow>
   parseJsonpResponse (JSON_parse_directory P) text = Inr payload \<Longrightarrow>
     fst (getLibraries svc P pref' city' s)
       = Inr (case payload of LibraryArray ls \<Rightarrow> ls | SystemObject systems \<Rightarrow> [])"
  by (simp add: getLibraries_def fetch_def Let_def)

theorem getLibraries_shapes_witness:
  \<open>net (examplePlatform arrayDirectory) (length (requests start))
     = Response 200 (''['' @ exampleLibraryText @ '']'')
   \<and> ok 200
   \<and> parseJsonpResponse (JSON_parse_directory (examplePlatform arrayDirectory))
         (''['' @ exampleLibraryText @ '']'')
       = Inr (LibraryArray [exampleLibrary])
   \<and> fst (getLibraries exampleService (examplePlatform arrayDirectory) ''Chiba'' (Some ''Chiba'') start)
       = Inr [exampleLibrary]\<close>
  using getLibraries_shapes
    [of "examplePlatform arrayDirectory" start 200 "''['' @ exampleLibraryText @ '']''"
        "LibraryArray [exampleLibrary]" exampleService "''Chiba''" "Some ''Chiba''"]
  by (simp add: examplePlatform_def arrayDirectory_def start_def ok_def
        parseJsonpResponse_def startsWith_def exampleParseDirectory_def exampleLibraryText_def)

text \<open>
  C3, as the claim states it, fails: the directory answers with an object keyed by system that
  holds one library, and \<open>getLibraries\<close> returns the empty list.
\<close>

theorem getLibraries_object_counterexample:
  \<open>exampleParseDirectory (''{"Chiba_Chiba":{"A":'' @ exampleLibraryText @ ''}}'')
     = Inr (SystemObject [(''Chiba_Chiba'', [(''A'', exampleLibrary)])])
   \<and> fst (getLibraries exampleService (examplePlatform objectDirectory) ''Chiba'' (Some ''Chiba'') start)
     = Inr []\<close>
  by (simp add: getLibraries_def fetch_def examplePlatform_def objectDirectory_def start_def ok_def
        parseJsonpResponse_def startsWith_def exampleParseDirectory_def exampleLibraryText_def)

text \<open>
  C1, as the code has it. When the directory lookup returns no library, \<open>searchBookInCity\<close>
  returns the error object \<open>{ error: "No libraries found in <pref>, <city>" }\<close>. The run has
  issued the directory request and nothing else: no check request, no poll round, no wait.
\<close>

theorem searchBookInCity_no_libraries:
  "getLibraries svc P pref' (Some city') s = (Inr [], s1) \<Longrightarrow>
     searchBookInCity svc P isbn pref' city' s
       = (Inr (ErrorResponse (''No libraries found in '' @ pref' @ '', '' @ city')), s1)
     \<and> requests s1 = requests s @ [directoryRequest svc pref' (Some city')]
     \<and> waited s1 = waited s"
proof -
  assume run: "getLibraries svc P pref' (Some city') s = (Inr [], s1)"
  have "s1 = snd (getLibraries svc P pref' (Some city') s)"
    by (simp add: run)
  then have "s1 = s\<lparr>requests := requests s @ [directoryRequest svc pref' (Some city')]\<rparr>"
    by (simp only: getLibraries_io)
  then show ?thesis
    by (simp add: searchBookInCity_def run)
qed

theorem searchBookInCity_no_libraries_witness:
  "getLibraries exampleService (examplePlatform emptyDirectory) ''Chiba'' (Some ''Chiba'') start
     = (Inr [], \<lparr>requests = [directoryRequest exampleService ''Chiba'' (Some ''Chiba'')], waited = 0\<rparr>)
   \<and> searchBookInCity exampleService (examplePlatform emptyDirectory) ''4299062647'' ''Chiba'' ''Chiba''
        start
     = (Inr (ErrorResponse ''No libraries found in Chiba, Chiba''),
        \<lparr>requests = [directoryRequest exampleService ''Chiba'' (Some ''Chiba'')], waited = 0\<rparr>)"
  using searchBookInCity_no_libraries
    [of exampleService "examplePlatform emptyDirectory" "''Chiba''" "''Chiba''" start
        "\<lparr>requests = [directoryRequest exampleService ''Chiba'' (Some ''Chiba'')], waited = 0\<rparr>"
        "''4299062647''"]
  by (simp add: getLibraries_def fetch_def examplePlatform_def emptyDirectory_def directoryRequest_def
        start_def ok_def parseJsonpResponse_def startsWith_def exampleParseDirectory_def)

text \<open>
  C1, as the claim states it, fails: the directory answers with the empty array, and the
  facade returns an error object, not the report with an empty list of entries.
\<close>

theorem searchBookInCity_no_libraries_counterexample:
  "fst (getLibraries exampleService (examplePlatform emptyDirectory) ''Chiba'' (Some ''Chiba'') start)
     = Inr []
   \<and> fst (searchBookInCity exampleService (examplePlatform emptyDirectory) ''4299062647'' ''Chiba''
            ''Chiba'' start)
     = Inr (ErrorResponse ''No libraries found in Chiba, Chiba'')"
  by (simp add: searchBookInCity_def getLibraries_def fetch_def examplePlatform_def emptyDirectory_def
        start_def ok_def parseJsonpResponse_def startsWith_def exampleParseDirectory_def)

text \<open>
  C2, as the code has it. \<open>searchBookInCity\<close> never throws. An error thrown by the directory
  lookup, or by the check and its polling once the directory has given libraries, is caught,
  and the facade returns the error object that holds the message of the error; the run stops
  where the error was thrown.
\<close>

theorem searchBookInCity_catches:
  "(\<forall>e. fst (searchBookInCity svc P isbn pref' city' s) \<noteq> Inl e)
   \<and> (getLibraries svc P pref' (Some city') s = (Inl e1, s1)
        \<longrightarrow> searchBookInCity svc P isbn pref' city' s = (Inr (ErrorResponse (message e1)), s1))
   \<and> (getLibraries svc P pref' (Some city') s = (Inr libraries, s1) \<and> libraries \<noteq> []
        \<and> checkBooks svc P isbn (join '','' (newSet (map systemid libraries))) s1 = (Inl e2, s2)
        \<longrightarrow> searchBookInCity svc P isbn pref' city' s = (Inr (ErrorResponse (message e2)), s2))"
  by (auto simp: searchBookInCity_def Let_def split: prod.splits sum.splits)

lemma getLibraries_checkDown:
  "getLibraries exampleService (examplePlatform checkDown) ''Chiba'' (Some ''Chiba'') start
     = (Inr [exampleLibrary],
        \<lparr>requests = [directoryRequest exampleService ''Chiba'' (Some ''Chiba'')], waited = 0\<rparr>)"
  by code_simp

lemma checkBooks_checkDown:
  "checkBooks exampleService (examplePlatform checkDown) ''4299062647''
       (join '','' (newSet (map systemid [exampleLibrary])))
       \<lparr>requests = [directoryRequest exampleService ''Chiba'' (Some ''Chiba'')], waited = 0\<rparr>
     = (Inl (Error ''API call failed with status: 503''),
        \<lparr>requests = [directoryRequest exampleService ''Chiba'' (Some ''Chiba''),
                      checkRequest exampleService ''4299062647'' ''Chiba_Chiba''],
          waited = 0\<rparr>)"
  by code_simp

lemma getLibraries_directoryDown:
  "getLibraries exampleService (examplePlatform directoryDown) ''Chiba'' (Some ''Chiba'') start
     = (Inl (Error ''API call failed with status: 500''),
        \<lparr>requests = [directoryRequest exampleService ''Chiba'' (Some ''Chiba'')], waited = 0\<rparr>)"
  by code_simp

theorem searchBookInCity_catches_witness:
  "getLibraries exampleService (examplePlatform directoryDown) ''Chiba'' (Some ''Chiba'') start
     = (Inl (Error ''API call failed with status: 500''),
        \<lparr>requests = [directoryRequest exampleService ''Chiba'' (Some ''Chiba'')], waited = 0\<rparr>)
   \<and> searchBookInCity exampleService (examplePlatform directoryDown) ''4299062647'' ''Chiba'' ''Chiba''
        start
     = (Inr (ErrorResponse ''API call failed with status: 500''),
        \<lparr>requests = [directoryRequest exampleService ''Chiba'' (Some ''Chiba'')], waited = 0\<rparr>)
   \<and> getLibraries exampleService (examplePlatform checkDown) ''Chiba'' (Some ''Chiba'') start
     = (Inr [exampleLibrary],
        \<lparr>requests = [directoryRequest exampleService ''Chiba'' (Some ''Chiba'')], waited = 0\<rparr>)
   \<and> [exampleLibrary] \<noteq> []
   \<and> checkBooks exampleService (examplePlatform checkDown) ''4299062647''
       (join '','' (newSet (map systemid [exampleLibrary])))
       \<lparr>requests = [directoryRequest exampleService ''Chiba'' (Some ''Chiba'')], waited = 0\<rparr>
     = (Inl (Error ''API call failed with status: 503''),
        \<lparr>requests = [directoryRequest exampleService ''Chiba'' (Some ''Chiba''),
                      checkRequest exampleService ''4299062647'' ''Chiba_Chiba''],
          waited = 0\<rparr>)
   \<and> searchBookInCity exampleService (examplePlatform checkDown) ''4299062647'' ''Chiba'' ''Chiba''
        start
     = (Inr (ErrorResponse ''API call failed with status: 503''),
        \<lparr>requests = [directoryRequest exampleService ''Chiba'' (Some ''Chiba''),
                      checkRequest exampleService ''4299062647'' ''Chiba_Chiba''],
          waited = 0\<rparr>)"
proof -
  have "searchBookInCity exampleService (examplePlatform directoryDown) ''4299062647'' ''Chiba''
          ''Chiba'' start
     = (Inr (ErrorResponse (message (Error ''API call failed with status: 500''))),
        \<lparr>requests = [directoryRequest exampleService ''Chiba'' (Some ''Chiba'')], waited = 0\<rparr>)"
    using searchBookInCity_catches [THEN conjunct2, THEN conjunct1] getLibraries_directoryDown
    by (rule mp)
  moreover have "searchBookInCity exampleService (examplePlatform checkDown) ''4299062647'' ''Chiba''
          ''Chiba'' start
     = (Inr (ErrorResponse (message (Error ''API call failed with status: 503''))),
        \<lparr>requests = [directoryRequest exampleService ''Chiba'' (Some ''Chiba''),
                      checkRequest exampleService ''4299062647'' ''Chiba_Chiba''],
          waited = 0\<rparr>)"
  proof -
    have "getLibraries exampleService (examplePlatform checkDown) ''Chiba'' (Some ''Chiba'') start
        = (Inr [exampleLibrary],
           \<lparr>requests = [directoryRequest exampleService ''Chiba'' (Some ''Chiba'')], waited = 0\<rparr>)
      \<and> [exampleLibrary] \<noteq> []
      \<and> checkBooks exampleService (examplePlatform checkDown) ''4299062647''
          (join '','' (newSet (map systemid [exampleLibrary])))
          \<lparr>requests = [directoryRequest exampleService ''Chiba'' (Some ''Chiba'')], waited = 0\<rparr>
        = (Inl (Error ''API call failed with status: 503''),
           \<lparr>requests = [directoryRequest exampleService ''Chiba'' (Some ''Chiba''),
                         checkRequest exampleService ''4299062647'' ''Chiba_Chiba''],
             waited = 0\<rparr>)"
      by (intro conjI) (rule getLibraries_checkDown, simp, rule checkBooks_checkDown)
    with searchBookInCity_catches [THEN conjunct2, THEN conjunct2] show ?thesis
      by (rule mp)
  qed
  ultimately show ?thesis
    using getLibraries_directoryDown getLibraries_checkDown checkBooks_checkDown by simp
qed

text \<open>
  C2, as the claim states it, fails: the directory answers with status 500, \<open>getLibraries\<close>
  throws, and the facade does not throw: it returns an object.
\<close>

theorem searchBookInCity_error_counterexample:
  "fst (getLibraries exampleService (examplePlatform directoryDown) ''Chiba'' (Some ''Chiba'') start)
     = Inl (Error ''API call failed with status: 500'')
   \<and> fst (searchBookInCity exampleService (examplePlatform directoryDown) ''4299062647'' ''Chiba''
            ''Chiba'' start)
     = Inr (ErrorResponse ''API call failed with status: 500'')"
  by (simp add: searchBookInCity_def getLibraries_def fetch_def examplePlatform_def directoryDown_def
        start_def ok_def showNat_500)

section \<open>Lending statuses and reservation links\<close>

lemma libkeyLoop_status:
  "map LibraryResult.status (libkeyLoop systemLibraries isbn systemId systemData keys acc)
   = map LibraryResult.status acc
     @ map (\<lambda>(libKey, v). lendingStatusOf v)
         (filter (\<lambda>(libKey, v). \<exists>lib \<in> set systemLibraries. LibraryInfo.libkey lib = libKey) keys)"
proof (induction keys arbitrary: acc)
  case Nil
  show ?case by simp
next
  case (Cons entry keys)
  obtain libKey v where entry: "entry = (libKey, v)"
    by (cases entry)
  show ?case
  proof (cases "find (\<lambda>lib. LibraryInfo.libkey lib = libKey) systemLibraries")
    case None
    then have "\<not> (\<exists>lib \<in> set systemLibraries. LibraryInfo.libkey lib = libKey)"
      by (simp add: find_None_iff)
    with None Cons.IH show ?thesis
      by (simp add: entry)
  next
    case (Some libraryInfo)
    then have "\<exists>lib \<in> set systemLibraries. LibraryInfo.libkey lib = libKey"
      by (auto simp: find_Some_iff)
    with Some Cons.IH show ?thesis
      by (simp add: entry Let_def)
  qed
qed

lemma systemLoop_status:
  "map LibraryResult.status (systemLoop libraries isbn bookData acc)
   = map LibraryResult.status acc @ concat (map (systemStatuses libraries) bookData)"
proof (induction bookData arbitrary: acc)
  case Nil
  show ?case by simp
next
  case (Cons entry bookData)
  obtain systemId systemData where entry: "entry = (systemId, systemData)"
    by (cases entry)
  show ?case
  proof (cases "usable systemData")
    case True
    then have u: "SystemData.status systemData = ''OK'' \<or> SystemData.status systemData = ''Cache''"
      by (simp add: usable_def)
    show ?thesis
    proof (cases "SystemData.libkey systemData")
      case None
      with True u Cons.IH show ?thesis
        by (simp add: entry systemLoop_usable systemStatuses_def del: systemLoop.simps)
    next
      case (Some keys)
      with True u Cons.IH show ?thesis
        by (simp add: entry systemLoop_usable systemStatuses_def libkeyLoop_status Bex_def
              del: systemLoop.simps)
    qed
  next
    case False
    then have "\<not> (SystemData.status systemData = ''OK'' \<or> SystemData.status systemData = ''Cache'')"
      by (simp add: usable_def)
    with False Cons.IH show ?thesis
      by (simp add: entry systemLoop_unusable systemStatuses_def del: systemLoop.simps)
  qed
qed

text \<open>
  C5. The statuses of the report are, system by system and key by key in the order of the
  payload, those of the library keys that a usable system reports and that the directory
  knows in that system, none left out: the value of the key when it is a string that is not
  empty, and the fallback "unknown" when the key has no value or an empty one.
\<close>

theorem formatBookResult_statuses:
  "books bookResponse = Some bs \<Longrightarrow> map_of bs isbn = Some bookData \<Longrightarrow>
     (\<exists>entries. formatBookResult bookResponse libraries isbn = Result isbn entries
        \<and> map LibraryResult.status entries = concat (map (systemStatuses libraries) bookData))
     \<and> lendingStatusOf None = unknownStatus
     \<and> lendingStatusOf (Some []) = unknownStatus
     \<and> (\<forall>st. st \<noteq> [] \<longrightarrow> lendingStatusOf (Some st) = st)"
  using systemLoop_status [of libraries isbn bookData "[]"]
  by (simp add: formatBookResult_def lendingStatusOf_def)

theorem formatBookResult_statuses_witness:
  "books (checked ''4299062647'' exampleOk) = Some [(''4299062647'', [(''Chiba_Chiba'', exampleOk)])]
   \<and> map_of [(''4299062647'', [(''Chiba_Chiba'', exampleOk)])] ''4299062647''
       = Some [(''Chiba_Chiba'', exampleOk)]
   \<and> (\<exists>entries. formatBookResult (checked ''4299062647'' exampleOk)
                      [exampleLibrary, exampleLibraryB] ''4299062647''
                    = Result ''4299062647'' entries
                  \<and> map LibraryResult.status entries = [statusAvailable, unknownStatus])
   \<and> statusAvailable \<noteq> [] \<and> lendingStatusOf (Some statusAvailable) = statusAvailable"
  using formatBookResult_statuses
    [of "checked ''4299062647'' exampleOk" "[(''4299062647'', [(''Chiba_Chiba'', exampleOk)])]"
        "''4299062647''" "[(''Chiba_Chiba'', exampleOk)]" "[exampleLibrary, exampleLibraryB]"]
  by (simp add: checked_def exampleOk_def systemStatuses_def exampleLibrary_def exampleLibraryB_def
        statusAvailable_def lendingStatusOf_def)

text \<open>
  The loop runs over the keys of the payload: a library of the directory whose key the system
  does not report at all has no entry in the report.
\<close>

lemma formatBookResult_unlisted_key:
  "systemid exampleLibrary = ''Chiba_Chiba'' \<and> LibraryInfo.libkey exampleLibrary = ''A''
   \<and> SystemData.status exampleOnlyB = ''OK''
   \<and> formatBookResult (checked ''4299062647'' exampleOnlyB) [exampleLibrary, exampleLibraryB]
         ''4299062647''
       = Result ''4299062647''
           [\<lparr>name = ''Branch Library'', LibraryResult.status = statusAvailable, reserveUrl = None\<rparr>]"
  by (simp add: formatBookResult_def checked_def exampleOnlyB_def exampleLibrary_def
        exampleLibraryB_def lendingStatusOf_def reserveUrlOf_def statusAvailable_def)

text \<open>
  A reservation link is built exactly when the system has a template that is not empty and
  the status is not "no holdings"; no entry of a report has both that status and a link; a
  value without a dollar sign is put in place of the placeholder as it is.
\<close>

lemma getSubstitution_plain:
  "CHR ''$'' \<notin> set v \<Longrightarrow> getSubstitution matched preceding following v = v"
  by (induction matched preceding following v rule: getSubstitution.induct) auto

lemma replace_plain:
  "CHR ''$'' \<notin> set v \<Longrightarrow> indexOf text' p = Some i \<Longrightarrow>
     replace text' p v = take i text' @ v @ drop (i + length p) text'"
  by (simp add: replace_def Let_def getSubstitution_plain)

lemma reserveUrlOf_constructed:
  "reserveUrlOf systemData lendingStatus isbn systemId libKey \<noteq> None
     \<longleftrightarrow> (\<exists>template. reserveurl systemData = Some template \<and> template \<noteq> []
                      \<and> lendingStatus \<noteq> noHoldings)"
  by (auto simp: reserveUrlOf_def split: option.splits)

lemma libkeyLoop_noHoldings:
  "\<forall>e \<in> set acc. LibraryResult.status e = noHoldings \<longrightarrow> reserveUrl e = None \<Longrightarrow>
   \<forall>e \<in> set (libkeyLoop systemLibraries isbn systemId systemData keys acc).
      LibraryResult.status e = noHoldings \<longrightarrow> reserveUrl e = None"
proof (induction keys arbitrary: acc)
  case Nil
  then show ?case by simp
next
  case (Cons entry keys)
  obtain libKey v where entry: "entry = (libKey, v)"
    by (cases entry)
  show ?case
  proof (cases "find (\<lambda>lib. LibraryInfo.libkey lib = libKey) systemLibraries")
    case None
    with Cons show ?thesis by (simp add: entry)
  next
    case (Some libraryInfo)
    let ?e = "\<lparr>name = formal libraryInfo, LibraryResult.status = lendingStatusOf v,
               reserveUrl = reserveUrlOf systemData (lendingStatusOf v) isbn systemId libKey\<rparr>"
    have "\<forall>e \<in> set (acc @ [?e]). LibraryResult.status e = noHoldings \<longrightarrow> reserveUrl e = None"
      using Cons.prems by (auto simp: reserveUrlOf_def split: option.splits)
    from Cons.IH [OF this] show ?thesis
      by (simp add: entry Some Let_def)
  qed
qed

lemma systemLoop_noHoldings:
  "\<forall>e \<in> set acc. LibraryResult.status e = noHoldings \<longrightarrow> reserveUrl e = None \<Longrightarrow>
   \<forall>e \<in> set (systemLoop libraries isbn bookData acc).
      LibraryResult.status e = noHoldings \<longrightarrow> reserveUrl e = None"
proof (induction bookData arbitrary: acc)
  case Nil
  then show ?case by simp
next
  case (Cons entry bookData)
  obtain systemId systemData where entry: "entry = (systemId, systemData)"
    by (cases entry)
  show ?case
  proof (cases "usable systemData")
    case False
    with Cons show ?thesis
      by (simp add: entry systemLoop_unusable del: systemLoop.simps)
  next
    case True
    show ?thesis
    proof (cases "SystemData.libkey systemData")
      case None
      with True Cons show ?thesis
        by (simp add: entry systemLoop_usable del: systemLoop.simps)
    next
      case (Some keys)
      have "\<forall>e \<in> set (libkeyLoop (filter (\<lambda>lib. systemid lib = systemId) libraries) isbn
                          systemId systemData keys acc).
              LibraryResult.status e = noHoldings \<longrightarrow> reserveUrl e = None"
        using Cons.prems by (rule libkeyLoop_noHoldings)
      from Cons.IH [OF this] True Some show ?thesis
        by (simp add: entry systemLoop_usable del: systemLoop.simps)
    qed
  qed
qed

lemma formatBookResult_noHoldings:
  "formatBookResult bookResponse libraries isbn = Result isbn' entries \<Longrightarrow> e \<in> set entries \<Longrightarrow>
     LibraryResult.status e = noHoldings \<Longrightarrow> reserveUrl e = None"
  using systemLoop_noHoldings [of "[]"]
  by (auto simp: formatBookResult_def split: option.splits)

text \<open>
  C8 at an ISBN that holds a replacement pattern: the ISBN is \<open>$&\<close>, which \<open>replace\<close> expands
  to the matched placeholder, so the link keeps \<open>{{isbn}}\<close> where the ISBN should stand.
\<close>

theorem formatBookResult_dollar_isbn:
  "formatBookResult (checked ''$&'' exampleOk) [exampleLibrary] ''$&''
     = Result ''$&''
         [\<lparr>name = ''Central Library'', LibraryResult.status = statusAvailable,
           reserveUrl = Some ''https://reserve.example/Chiba_Chiba/A/{{isbn}}''\<rparr>]"
  by code_simp

section \<open>Properties of the poller\<close>

lemma pollLoop_exhausted:
  "\<not> i < maxRetries \<Longrightarrow> pollLoop svc P session' maxRetries i s = (Inl (timedOut maxRetries), s)"
  by (subst pollLoop.simps) (simp add: timedOut_def)

lemma pollLoop_continue:
  "i < maxRetries \<Longrightarrow> observedContinue P (length (requests s)) = Some c \<Longrightarrow> c \<noteq> 0 \<Longrightarrow>
     pollLoop svc P session' maxRetries i s =
       pollLoop svc P session' maxRetries (i + 1)
         (s\<lparr>waited := waited s + 1000, requests := requests s @ [pollRequest svc session']\<rparr>)"
  by (subst pollLoop.simps)
     (auto simp: fetch_def observedContinue_def pollRequest_def
           split: fetch_outcome.splits sum.splits if_splits)

lemma pollLoop_stop:
  "i < maxRetries \<Longrightarrow> \<not> (\<exists>c. observedContinue P (length (requests s)) = Some c \<and> c \<noteq> 0) \<Longrightarrow>
     snd (pollLoop svc P session' maxRetries i s) =
       s\<lparr>waited := waited s + 1000, requests := requests s @ [pollRequest svc session']\<rparr>"
  by (subst pollLoop.simps)
     (auto simp: fetch_def observedContinue_def pollRequest_def
           split: fetch_outcome.splits sum.splits if_splits)

lemma pollLoop_run:
  "\<exists>n. n \<le> maxRetries - i
     \<and> requests (snd (pollLoop svc P session' maxRetries i s))
         = requests s @ replicate n (pollRequest svc session')
     \<and> waited (snd (pollLoop svc P session' maxRetries i s)) = waited s + 1000 * n
     \<and> (\<forall>j. Suc j < n \<longrightarrow>
            (\<exists>c. observedContinue P (length (requests s) + j) = Some c \<and> c \<noteq> 0))"
proof (induction "maxRetries - i" arbitrary: i s)
  case 0
  then have "\<not> i < maxRetries" by simp
  then have "pollLoop svc P session' maxRetries i s = (Inl (timedOut maxRetries), s)"
    by (rule pollLoop_exhausted)
  then show ?case by simp
next
  case (Suc d)
  then have less: "i < maxRetries" and d: "d = maxRetries - (i + 1)" by simp_all
  let ?s1 = "s\<lparr>waited := waited s + 1000, requests := requests s @ [pollRequest svc session']\<rparr>"
  show ?case
  proof (cases "\<exists>c. observedContinue P (length (requests s)) = Some c \<and> c \<noteq> 0")
    case True
    then obtain c where c: "observedContinue P (length (requests s)) = Some c" "c \<noteq> 0"
      by blast
    have step: "pollLoop svc P session' maxRetries i s = pollLoop svc P session' maxRetries (i + 1) ?s1"
      using less c by (rule pollLoop_continue)
    from Suc.hyps(1) [OF d, of ?s1]
    obtain n where n: "n \<le> maxRetries - (i + 1)"
      "requests (snd (pollLoop svc P session' maxRetries (i + 1) ?s1))
         = requests ?s1 @ replicate n (pollRequest svc session')"
      "waited (snd (pollLoop svc P session' maxRetries (i + 1) ?s1)) = waited ?s1 + 1000 * n"
      "\<forall>j. Suc j < n \<longrightarrow>
            (\<exists>c. observedContinue P (length (requests ?s1) + j) = Some c \<and> c \<noteq> 0)"
      by blast
    have "\<forall>j. Suc j < Suc n \<longrightarrow>
            (\<exists>c. observedContinue P (length (requests s) + j) = Some c \<and> c \<noteq> 0)"
    proof (intro allI impI)
      fix j assume j: "Suc j < Suc n"
      show "\<exists>c. observedContinue P (length (requests s) + j) = Some c \<and> c \<noteq> 0"
      proof (cases j)
        case 0
        with c show ?thesis by simp
      next
        case (Suc j')
        with j have "Suc j' < n" by simp
        with n(4) have "\<exists>c. observedContinue P (length (requests ?s1) + j') = Some c \<and> c \<noteq> 0"
          by blast
        then show ?thesis by (simp add: Suc)
      qed
    qed
    moreover have "Suc n \<le> maxRetries - i" using n(1) less by simp
    moreover have "requests (snd (pollLoop svc P session' maxRetries i s))
         = requests s @ replicate (Suc n) (pollRequest svc session')"
      using n(2) by (simp add: step)
    moreover have "waited (snd (pollLoop svc P session' maxRetries i s)) = waited s + 1000 * Suc n"
      using n(3) by (simp add: step)
    ultimately show ?thesis by blast
  next
    case False
    with less have stop: "snd (pollLoop svc P session' maxRetries i s) = ?s1"
      by (rule pollLoop_stop)
    have "Suc 0 \<le> maxRetries - i" using less by simp
    moreover have "requests (snd (pollLoop svc P session' maxRetries i s))
         = requests s @ replicate (Suc 0) (pollRequest svc session')"
      by (simp add: stop)
    moreover have "waited (snd (pollLoop svc P session' maxRetries i s)) = waited s + 1000 * Suc 0"
      by (simp add: stop)
    moreover have "\<forall>j. Suc j < Suc 0 \<longrightarrow>
            (\<exists>c. observedContinue P (length (requests s) + j) = Some c \<and> c \<noteq> 0)"
      by simp
    ultimately show ?thesis by blast
  qed
qed

lemma pollLoop_timeout:
  "(\<forall>j < maxRetries - i. \<exists>c. observedContinue P (length (requests s) + j) = Some c \<and> c \<noteq> 0) \<Longrightarrow>
     fst (pollLoop svc P session' maxRetries i s) = Inl (timedOut maxRetries)
     \<and> length (requests (snd (pollLoop svc P session' maxRetries i s)))
         = length (requests s) + (maxRetries - i)"
proof (induction "maxRetries - i" arbitrary: i s)
  case 0
  then have "\<not> i < maxRetries" by simp
  then have "pollLoop svc P session' maxRetries i s = (Inl (timedOut maxRetries), s)"
    by (rule pollLoop_exhausted)
  with 0 show ?case by simp
next
  case (Suc d)
  then have less: "i < maxRetries" and d: "d = maxRetries - (i + 1)" by simp_all
  let ?s1 = "s\<lparr>waited := waited s + 1000, requests := requests s @ [pollRequest svc session']\<rparr>"
  from Suc.prems less obtain c where c: "observedContinue P (length (requests s)) = Some c" "c \<noteq> 0"
    by (metis add.right_neutral zero_less_diff)
  have step: "pollLoop svc P session' maxRetries i s = pollLoop svc P session' maxRetries (i + 1) ?s1"
    using less c by (rule pollLoop_continue)
  have "\<forall>j < maxRetries - (i + 1). \<exists>c. observedContinue P (length (requests ?s1) + j) = Some c \<and> c \<noteq> 0"
  proof (intro allI impI)
    fix j assume "j < maxRetries - (i + 1)"
    then have "Suc j < maxRetries - i" by simp
    with Suc.prems have "\<exists>c. observedContinue P (length (requests s) + Suc j) = Some c \<and> c \<noteq> 0"
      by blast
    then show "\<exists>c. observedContinue P (length (requests ?s1) + j) = Some c \<and> c \<noteq> 0"
      by simp
  qed
  from Suc.hyps(1) [OF d this] show ?case
    using less by (simp add: step)
qed

lemma checkBooks_poll:
  "observedContinue P (length (requests s)) = Some 1 \<Longrightarrow>
     \<exists>session'. checkBooks svc P isbn systemids s =
       pollLoop svc P session' 5 0 (s\<lparr>requests := requests s @ [checkRequest svc isbn systemids]\<rparr>)"
  by (auto simp: checkBooks_def pollResults_def fetch_def observedContinue_def checkRequest_def
           split: fetch_outcome.splits sum.splits if_splits)

lemma checkBooks_direct:
  "observedContinue P (length (requests s)) \<noteq> Some 1 \<Longrightarrow>
     snd (checkBooks svc P isbn systemids s) =
       s\<lparr>requests := requests s @ [checkRequest svc isbn systemids]\<rparr>"
  by (auto simp: checkBooks_def pollResults_def fetch_def observedContinue_def checkRequest_def
           split: fetch_outcome.splits sum.splits if_splits)

lemma showNat_5: "showNat 5 = ''5''"
  by code_simp

lemma timedOut_5: "timedOut 5 = Error ''Polling timed out after 5 attempts''"
  by (simp add: timedOut_def showNat_5)


text \<open>
  C4. In a run of \<open>checkBooks\<close>, the requests issued are the check request and then at most
  five poll rounds, all for one session, with a second of wait for each round. A request whose
  answer says \<open>continue = 0\<close> is the last request of the run. When the check and the five rounds
  all say \<open>continue = 1\<close>, the run throws the error "Polling timed out after 5 attempts" after
  exactly five rounds; its message is not the message of a failed request.
\<close>

theorem checkBooks_polling:
  "checkBooks svc P isbn systemids s = (r, s') \<Longrightarrow>
     (\<exists>n session'. n \<le> 5
        \<and> requests s' = requests s @ checkRequest svc isbn systemids
                             # replicate n (pollRequest svc session')
        \<and> waited s' = waited s + 1000 * n)
     \<and> (\<forall>k. length (requests s) \<le> k \<and> k < length (requests s')
              \<and> observedContinue P k = Some 0
            \<longrightarrow> length (requests s') = Suc k)
     \<and> ((\<forall>k. length (requests s) \<le> k \<and> k \<le> length (requests s) + 5
              \<longrightarrow> observedContinue P k = Some 1)
          \<longrightarrow> r = Inl (Error ''Polling timed out after 5 attempts'')
              \<and> length (requests s') = length (requests s) + 6)
     \<and> (\<forall>code. ''Polling timed out after 5 attempts''
                 \<noteq> ''API call failed with status: '' @ showNat code)"
proof -
  assume run: "checkBooks svc P isbn systemids s = (r, s')"
  let ?s1 = "s\<lparr>requests := requests s @ [checkRequest svc isbn systemids]\<rparr>"
  have distinct: "\<forall>code. ''Polling timed out after 5 attempts''
                 \<noteq> ''API call failed with status: '' @ showNat code"
    by simp
  show ?thesis
  proof (cases "observedContinue P (length (requests s)) = Some 1")
    case True
    then obtain session' where poll: "checkBooks svc P isbn systemids s = pollLoop svc P session' 5 0 ?s1"
      using checkBooks_poll by blast
    with run have "pollLoop svc P session' 5 0 ?s1 = (r, s')"
      by simp
    then have r: "r = fst (pollLoop svc P session' 5 0 ?s1)"
      and s': "s' = snd (pollLoop svc P session' 5 0 ?s1)"
      by simp_all
    from pollLoop_run [of 5 0 svc P session' ?s1]
    obtain n where n: "n \<le> 5"
      "requests s' = requests ?s1 @ replicate n (pollRequest svc session')"
      "waited s' = waited ?s1 + 1000 * n"
      "\<forall>j. Suc j < n \<longrightarrow>
            (\<exists>c. observedContinue P (length (requests ?s1) + j) = Some c \<and> c \<noteq> 0)"
      unfolding s' by auto
    have one: "\<exists>n session'. n \<le> 5
        \<and> requests s' = requests s @ checkRequest svc isbn systemids
                             # replicate n (pollRequest svc session')
        \<and> waited s' = waited s + 1000 * n"
      using n(1,2,3) by auto
    have two: "\<forall>k. length (requests s) \<le> k \<and> k < length (requests s')
              \<and> observedContinue P k = Some 0
            \<longrightarrow> length (requests s') = Suc k"
    proof (intro allI impI)
      fix k
      assume k: "length (requests s) \<le> k \<and> k < length (requests s')
              \<and> observedContinue P k = Some 0"
      with True have "k \<noteq> length (requests s)" by auto
      with k have "length (requests ?s1) \<le> k" by simp
      then obtain j where j: "k = length (requests ?s1) + j"
        using le_Suc_ex by blast
      with k n(2) have "j < n" by simp
      have "\<not> Suc j < n"
      proof
        assume "Suc j < n"
        with n(4) obtain c where "observedContinue P (length (requests ?s1) + j) = Some c" "c \<noteq> 0"
          by blast
        with k j show False by simp
      qed
      with \<open>j < n\<close> have "n = Suc j" by simp
      with n(2) j show "length (requests s') = Suc k" by simp
    qed
    have three: "(\<forall>k. length (requests s) \<le> k \<and> k \<le> length (requests s) + 5
              \<longrightarrow> observedContinue P k = Some 1)
          \<longrightarrow> r = Inl (Error ''Polling timed out after 5 attempts'')
              \<and> length (requests s') = length (requests s) + 6"
    proof
      assume all: "\<forall>k. length (requests s) \<le> k \<and> k \<le> length (requests s) + 5
              \<longrightarrow> observedContinue P k = Some 1"
      have "\<forall>j < 5 - 0. \<exists>c. observedContinue P (length (requests ?s1) + j) = Some c \<and> c \<noteq> 0"
      proof (intro allI impI)
        fix j :: nat assume "j < 5 - 0"
        then have "observedContinue P (length (requests s) + Suc j) = Some 1"
          using all by simp
        then show "\<exists>c. observedContinue P (length (requests ?s1) + j) = Some c \<and> c \<noteq> 0"
          by simp
      qed
      from pollLoop_timeout [OF this, of svc session']
      show "r = Inl (Error ''Polling timed out after 5 attempts'')
              \<and> length (requests s') = length (requests s) + 6"
        by (simp add: r s' timedOut_5)
    qed
    from one two three distinct show ?thesis by blast
  next
    case False
    then have s': "s' = ?s1"
      using checkBooks_direct [of P s svc isbn systemids] run by simp
    have one: "\<exists>n session'. n \<le> 5
        \<and> requests s' = requests s @ checkRequest svc isbn systemids
                             # replicate n (pollRequest svc session')
        \<and> waited s' = waited s + 1000 * n"
      by (rule exI [of _ 0]) (simp add: s')
    have two: "\<forall>k. length (requests s) \<le> k \<and> k < length (requests s')
              \<and> observedContinue P k = Some 0
            \<longrightarrow> length (requests s') = Suc k"
      by (auto simp: s')
    have three: "(\<forall>k. length (requests s) \<le> k \<and> k \<le> length (requests s) + 5
              \<longrightarrow> observedContinue P k = Some 1)
          \<longrightarrow> r = Inl (Error ''Polling timed out after 5 attempts'')
              \<and> length (requests s') = length (requests s) + 6"
      using False by auto
    from one two three distinct show ?thesis by blast
  qed
qed

lemma observed_neverSettles: "observedContinue (examplePlatform neverSettles) k = Some 1"
  by (simp add: observedContinue_def examplePlatform_def neverSettles_def ok_def
        parseJsonpResponse_def startsWith_def exampleParseCheck_def)

lemma observed_settledAtOnce: "observedContinue (examplePlatform settledAtOnce) k = Some 0"
  by (simp add: observedContinue_def examplePlatform_def settledAtOnce_def ok_def
        parseJsonpResponse_def startsWith_def exampleParseCheck_def)

lemma checkBooks_settledAtOnce:
  "checkBooks exampleService (examplePlatform settledAtOnce) ''4299062647'' ''Chiba_Chiba'' start
     = (Inr \<lparr>session = ''s1'', continue = 0, books = Some []\<rparr>,
        \<lparr>requests = [checkRequest exampleService ''4299062647'' ''Chiba_Chiba''], waited = 0\<rparr>)"
  by (simp add: checkBooks_def fetch_def examplePlatform_def settledAtOnce_def ok_def start_def
        parseJsonpResponse_def startsWith_def exampleParseCheck_def checkRequest_def)

lemma checkBooks_neverSettles:
  "checkBooks exampleService (examplePlatform neverSettles) ''4299062647'' ''Chiba_Chiba'' start
     = (Inl (Error ''Polling timed out after 5 attempts''),
        \<lparr>requests = [checkRequest exampleService ''4299062647'' ''Chiba_Chiba'',
                      pollRequest exampleService ''s1'', pollRequest exampleService ''s1'',
                      pollRequest exampleService ''s1'', pollRequest exampleService ''s1'',
                      pollRequest exampleService ''s1''],
          waited = 5000\<rparr>)"
  by code_simp

theorem checkBooks_polling_witness:
  "checkBooks exampleService (examplePlatform neverSettles) ''4299062647'' ''Chiba_Chiba'' start
     = (Inl (Error ''Polling timed out after 5 attempts''),
        \<lparr>requests = [checkRequest exampleService ''4299062647'' ''Chiba_Chiba'',
                      pollRequest exampleService ''s1'', pollRequest exampleService ''s1'',
                      pollRequest exampleService ''s1'', pollRequest exampleService ''s1'',
                      pollRequest exampleService ''s1''],
          waited = 5000\<rparr>)
   \<and> length (requests start) = 0
   \<and> observedContinue (examplePlatform neverSettles) 0 = Some 1
   \<and> observedContinue (examplePlatform neverSettles) 1 = Some 1
   \<and> observedContinue (examplePlatform neverSettles) 2 = Some 1
   \<and> observedContinue (examplePlatform neverSettles) 3 = Some 1
   \<and> observedContinue (examplePlatform neverSettles) 4 = Some 1
   \<and> observedContinue (examplePlatform neverSettles) 5 = Some 1
   \<and> checkBooks exampleService (examplePlatform settledAtOnce) ''4299062647'' ''Chiba_Chiba'' start
       = (Inr \<lparr>session = ''s1'', continue = 0, books = Some []\<rparr>,
          \<lparr>requests = [checkRequest exampleService ''4299062647'' ''Chiba_Chiba''], waited = 0\<rparr>)
   \<and> length (requests start) \<le> 0
   \<and> 0 < length [checkRequest exampleService ''4299062647'' ''Chiba_Chiba'']
   \<and> observedContinue (examplePlatform settledAtOnce) 0 = Some 0
   \<and> length [checkRequest exampleService ''4299062647'' ''Chiba_Chiba''] = Suc 0"
proof -
  have ones: "\<forall>k. length (requests start) \<le> k \<and> k \<le> length (requests start) + 5
          \<longrightarrow> observedContinue (examplePlatform neverSettles) k = Some 1"
    by (simp add: observed_neverSettles)
  have "Inl (Error ''Polling timed out after 5 attempts'')
          = (Inl (Error ''Polling timed out after 5 attempts'') :: error + BookResponse)
        \<and> length (requests
             \<lparr>requests = [checkRequest exampleService ''4299062647'' ''Chiba_Chiba'',
                      pollRequest exampleService ''s1'', pollRequest exampleService ''s1'',
                      pollRequest exampleService ''s1'', pollRequest exampleService ''s1'',
                      pollRequest exampleService ''s1''],
               waited = 5000\<rparr>) = length (requests start) + 6"
    using checkBooks_polling [OF checkBooks_neverSettles, THEN conjunct2, THEN conjunct2,
        THEN conjunct1] ones
    by (rule mp)
  moreover have "length (requests
             \<lparr>requests = [checkRequest exampleService ''4299062647'' ''Chiba_Chiba''],
               waited = 0\<rparr>) = Suc 0"
    using checkBooks_polling [OF checkBooks_settledAtOnce, THEN conjunct2, THEN conjunct1,
        rule_format, of 0] observed_settledAtOnce [of 0]
    by (simp add: start_def)
  ultimately show ?thesis
    using checkBooks_neverSettles checkBooks_settledAtOnce observed_settledAtOnce [of 0]
    by (simp add: start_def observed_neverSettles)
qed

section \<open>Occurrences of a placeholder in a reservation link\<close>



























lemma exampleRepeated_url:
  "reserveUrlOf exampleRepeated statusAvailable ''4299062647'' ''Chiba_Chiba'' ''A''
     = Some ''https://reserve.example/Chiba_Chiba/A/4299062647/{{isbn}}/{{libkey}}''"
  by code_simp




end
